theory Spec2Isabelle
  imports Complex_Main "HOL-Library.Log_Nat" "HOL-Library.AList"
begin

section \<open>JavaScript values\<close>

text \<open>
  The gateway is one TypeScript module, \<^verbatim>\<open>src/index.ts\<close>. Every request body and every
  upstream answer has type \<^verbatim>\<open>any\<close>, so the model works on untyped JavaScript values.
  A Number is an IEEE 754 binary64 value. A finite one is represented by the rational it
  denotes (negative zero is identified with zero: the program never divides by a Number
  and never prints the sign of a zero).
\<close>

datatype jsnum = Finite rat | PosInf | NegInf | NaN

datatype jsval =
    JUndefined
  | JNull
  | JBool bool
  | JNum jsnum
  | JStr string
  | JArr "jsval list"
  | JObj "(string \<times> jsval) list"

text \<open>Exceptions and promise rejections.\<close>

datatype exn = TypeError | SyntaxError | InvalidCharacterError | Failure string

subsection \<open>binary64 arithmetic\<close>

definition pow2 :: "int \<Rightarrow> rat" where
  "pow2 k = (if 0 \<le> k then of_int (2 ^ nat k) else 1 / of_int (2 ^ nat (- k)))"

text \<open>\<open>ilog2 x\<close> is the binary exponent of a positive rational: \<open>2 ^ ilog2 x \<le> x < 2 ^ (ilog2 x + 1)\<close>.\<close>

definition ilog2 :: "rat \<Rightarrow> int" where
  "ilog2 x = (case quotient_of x of (a, b) \<Rightarrow>
     (let k = bitlen a - bitlen b
      in if pow2 k \<le> x then k else k - 1))"

definition round_half_even :: "rat \<Rightarrow> int" where
  "round_half_even x = (let f = \<lfloor>x\<rfloor>; d = x - of_int f
     in if d < 1 / 2 then f else if 1 / 2 < d then f + 1 else if even f then f else f + 1)"

text \<open>
  \<open>to_double x\<close> is the Number nearest to the real \<open>x\<close>: 53 significant bits, ties to the
  even significand, gradual underflow below \<open>2 ^ -1022\<close>, overflow to an infinity. It is
  what reading a decimal literal and what every arithmetic operation of the language do
  with the exact result.
\<close>

definition to_double :: "rat \<Rightarrow> jsnum" where
  "to_double x = (if x = 0 then Finite 0 else
     (let e = max (ilog2 \<bar>x\<bar>) (- 1022);
          q = pow2 (e - 52);
          y = of_int (round_half_even (\<bar>x\<bar> / q)) * q
      in if pow2 1024 \<le> y then (if x < 0 then NegInf else PosInf) else Finite (sgn x * y)))"

fun sign_of :: "jsnum \<Rightarrow> int" where
  "sign_of (Finite x) = (if x < 0 then - 1 else if x = 0 then 0 else 1)"
| "sign_of PosInf = 1"
| "sign_of NegInf = - 1"
| "sign_of NaN = 0"

text \<open>The \<^verbatim>\<open>*\<close> operator on Numbers.\<close>

fun js_times :: "jsnum \<Rightarrow> jsnum \<Rightarrow> jsnum" where
  "js_times (Finite a) (Finite b) = to_double (a * b)"
| "js_times a b =
     (if a = NaN \<or> b = NaN \<or> sign_of a * sign_of b = 0 then NaN
      else if 0 < sign_of a * sign_of b then PosInf else NegInf)"

text \<open>
  \<^verbatim>\<open>Math.round\<close>: the integral Number closest to the argument, the one nearer to
  plus infinity when two are equally close.
\<close>

fun Math_round :: "jsnum \<Rightarrow> jsnum" where
  "Math_round (Finite x) = Finite (of_int \<lfloor>x + 1 / 2\<rfloor>)"
| "Math_round n = n"

subsection \<open>Conversions and property access\<close>

fun truthy :: "jsval \<Rightarrow> bool" where
  "truthy JUndefined = False"
| "truthy JNull = False"
| "truthy (JBool b) = b"
| "truthy (JNum n) = (n \<noteq> NaN \<and> n \<noteq> Finite 0)"
| "truthy (JStr s) = (s \<noteq> [])"
| "truthy (JArr xs) = True"
| "truthy (JObj kvs) = True"

definition nullish :: "jsval \<Rightarrow> bool" where
  "nullish v = (v = JUndefined \<or> v = JNull)"

text \<open>
  \<open>get_prop v k\<close> is \<^verbatim>\<open>v[k]\<close> for a value that is not nullish. The program reads only
  property names that no prototype of a JSON value defines, so the result is the own
  property of an object and \<^verbatim>\<open>undefined\<close> otherwise.
\<close>

definition get_prop :: "jsval \<Rightarrow> string \<Rightarrow> jsval" where
  "get_prop v k = (case v of
       JObj kvs \<Rightarrow> (case map_of kvs k of None \<Rightarrow> JUndefined | Some x \<Rightarrow> x)
     | _ \<Rightarrow> JUndefined)"

text \<open>\<open>member v k\<close> is \<^verbatim>\<open>v.k\<close>: a TypeError on \<^verbatim>\<open>null\<close> and \<^verbatim>\<open>undefined\<close>.\<close>

definition member :: "jsval \<Rightarrow> string \<Rightarrow> exn + jsval" where
  "member v k = (if nullish v then Inl TypeError else Inr (get_prop v k))"

text \<open>A destructuring default applies exactly when the property is \<^verbatim>\<open>undefined\<close>.\<close>

definition dflt :: "jsval \<Rightarrow> jsval \<Rightarrow> jsval" where
  "dflt v d = (if v = JUndefined then d else v)"

fun mapM :: "('a \<Rightarrow> exn + 'b) \<Rightarrow> 'a list \<Rightarrow> exn + 'b list" where
  "mapM f [] = Inr []"
| "mapM f (x # xs) =
     (case f x of
        Inl e \<Rightarrow> Inl e
      | Inr y \<Rightarrow> (case mapM f xs of Inl e \<Rightarrow> Inl e | Inr ys \<Rightarrow> Inr (y # ys)))"

text \<open>
  \<^verbatim>\<open>v.map(f)\<close>: only an array has a callable \<^verbatim>\<open>map\<close>; on every other value the call is a
  TypeError. The callback may throw, which ends the traversal.
\<close>

definition js_map :: "(jsval \<Rightarrow> exn + jsval) \<Rightarrow> jsval \<Rightarrow> exn + jsval" where
  "js_map f v = (case v of
       JArr xs \<Rightarrow> (case mapM f xs of Inl e \<Rightarrow> Inl e | Inr ys \<Rightarrow> Inr (JArr ys))
     | _ \<Rightarrow> Inl TypeError)"

fun join_with :: "string \<Rightarrow> string list \<Rightarrow> string" where
  "join_with sep [] = []"
| "join_with sep [s] = s"
| "join_with sep (s # t # ss) = s @ sep @ join_with sep (t # ss)"

text \<open>
  \<^verbatim>\<open>String(v)\<close>, as a template literal applies it. The decimal form of a Number is
  the engine's and is taken as a parameter.
\<close>

primrec ToString :: "(jsnum \<Rightarrow> string) \<Rightarrow> jsval \<Rightarrow> string" where
  "ToString n2s JUndefined = ''undefined''"
| "ToString n2s JNull = ''null''"
| "ToString n2s (JBool b) = (if b then ''true'' else ''false'')"
| "ToString n2s (JNum n) = n2s n"
| "ToString n2s (JStr s) = s"
| "ToString n2s (JArr xs) =
     join_with '','' (map (\<lambda>(x, s). if nullish x then [] else s) (zip xs (map (ToString n2s) xs)))"
| "ToString n2s (JObj kvs) = ''[object Object]''"

text \<open>
  \<^verbatim>\<open>JSON.stringify\<close>, up to the layout of the text: the document that is written.
  \<^verbatim>\<open>undefined\<close> has no text; a property whose value is \<^verbatim>\<open>undefined\<close> is left out; an
  array element that is \<^verbatim>\<open>undefined\<close>, and a Number that is not finite, are written
  \<^verbatim>\<open>null\<close>.
\<close>

primrec JSON_stringify :: "jsval \<Rightarrow> jsval option" where
  "JSON_stringify JUndefined = None"
| "JSON_stringify JNull = Some JNull"
| "JSON_stringify (JBool b) = Some (JBool b)"
| "JSON_stringify (JNum n) = Some (case n of Finite x \<Rightarrow> JNum (Finite x) | _ \<Rightarrow> JNull)"
| "JSON_stringify (JStr s) = Some (JStr s)"
| "JSON_stringify (JArr xs) =
     Some (JArr (map (\<lambda>r. case r of None \<Rightarrow> JNull | Some d \<Rightarrow> d) (map JSON_stringify xs)))"
| "JSON_stringify (JObj kvs) =
     Some (JObj (concat (map (\<lambda>(k, r). case r of None \<Rightarrow> [] | Some d \<Rightarrow> [(k, d)])
                             (map (map_prod id JSON_stringify) kvs))))"


text \<open>
  \<^verbatim>\<open>price * 100\<close> first converts its left operand to a Number. The conversion of a
  string is the engine's and is taken as a parameter; an array or an object is converted
  through its string.
\<close>

fun ToNumber :: "(jsnum \<Rightarrow> string) \<Rightarrow> (string \<Rightarrow> jsnum) \<Rightarrow> jsval \<Rightarrow> jsnum" where
  "ToNumber n2s s2n JUndefined = NaN"
| "ToNumber n2s s2n JNull = Finite 0"
| "ToNumber n2s s2n (JBool b) = (if b then Finite 1 else Finite 0)"
| "ToNumber n2s s2n (JNum n) = n"
| "ToNumber n2s s2n (JStr s) = s2n s"
| "ToNumber n2s s2n v = s2n (ToString n2s v)"

text \<open>\<^verbatim>\<open>a || b\<close>.\<close>

definition js_or :: "jsval \<Rightarrow> jsval \<Rightarrow> jsval" where
  "js_or a b = (if truthy a then a else b)"

text \<open>
  An arrow function \<^verbatim>\<open>x => ({k1: x.p1, k2: x.p2, ...})\<close>: it throws on a nullish
  \<open>x\<close> when it reads the first property.
\<close>

definition project :: "(string \<times> string) list \<Rightarrow> jsval \<Rightarrow> exn + jsval" where
  "project fields x =
     (if nullish x then Inl TypeError
      else Inr (JObj (map (\<lambda>(k, p). (k, get_prop x p)) fields)))"

text \<open>The values a \<^verbatim>\<open>for ... of\<close> loop visits; a value that is not iterable throws.\<close>

fun iterate :: "jsval \<Rightarrow> exn + jsval list" where
  "iterate (JArr xs) = Inr xs"
| "iterate (JStr s) = Inr (map (\<lambda>c. JStr [c]) s)"
| "iterate v = Inl TypeError"

subsection \<open>Paths\<close>

definition startsWith :: "string \<Rightarrow> string \<Rightarrow> bool" where
  "startsWith s p = (take (length p) s = p)"

fun split_on :: "char \<Rightarrow> string \<Rightarrow> string list" where
  "split_on d [] = [[]]"
| "split_on d (c # cs) =
     (if c = d then [] # split_on d cs
      else (case split_on d cs of [] \<Rightarrow> [[c]] | x # xs \<Rightarrow> (c # x) # xs))"

text \<open>\<^verbatim>\<open>path.split('/')[i]\<close>.\<close>

definition segment :: "string \<Rightarrow> nat \<Rightarrow> jsval" where
  "segment path i =
     (let xs = split_on CHR ''/'' path in if i < length xs then JStr (xs ! i) else JUndefined)"

text \<open>The character class \<^verbatim>\<open>[\w-]\<close>.\<close>

definition id_char :: "char \<Rightarrow> bool" where
  "id_char c =
     (c \<in> set ''abcdefghijklmnopqrstuvwxyzABCDEFGHIJKLMNOPQRSTUVWXYZ0123456789_-'')"

text \<open>
  \<open>matches_id pre path\<close> is \<^verbatim>\<open>path.match(/^pre[\w-]+$/)\<close> for a literal \<open>pre\<close>:
  the two patterns of the program are \<^verbatim>\<open>/^\/github\/repos\/[\w-]+$/\<close> and
  \<^verbatim>\<open>/^\/agents\/[\w-]+$/\<close>.
\<close>

definition matches_id :: "string \<Rightarrow> string \<Rightarrow> bool" where
  "matches_id pre path =
     (startsWith path pre \<and> drop (length pre) path \<noteq> [] \<and> list_all id_char (drop (length pre) path))"

section \<open>The worker's surroundings\<close>

text \<open>
  An outgoing request. A JSON body is kept as the document \<^verbatim>\<open>JSON.stringify\<close> writes,
  a form body as the entries handed to \<^verbatim>\<open>URLSearchParams\<close>, in order, each value
  before its conversion to a string.
\<close>

datatype payload = No_payload | Json_payload jsval | Form_payload "(string \<times> jsval) list"

record call =
  url :: string
  verb :: string
  call_headers :: "(string \<times> string) list"
  payload :: payload

datatype d1_method = D1_all | D1_first | D1_run

record statement =
  sql :: string
  binds :: "jsval list"
  run_as :: d1_method

datatype event = Upstream call | Query statement | Console_log string

text \<open>
  What the program does not define: the upstream services, which answer a call (knowing
  everything that happened before it) with a parsed JSON value or a rejection, and the
  functions of the engine.
\<close>

record world =
  upstream :: "event list \<Rightarrow> call \<Rightarrow> exn + jsval"
  NumberToString :: "jsnum \<Rightarrow> string"
  StringToNumber :: "string \<Rightarrow> jsnum"
  btoa :: "string \<Rightarrow> exn + string"
  stringify_text :: "jsval \<Rightarrow> string"
  randomUUID :: string
  toISOString :: "nat \<Rightarrow> string"

record Env =
  GITHUB_TOKEN :: string
  STRIPE_SECRET_KEY :: string
  HF_TOKEN :: string
  CLOUDFLARE_API_TOKEN :: string
  CLOUDFLARE_ACCOUNT_ID :: string
  CONTINUITY_DB :: "event list \<Rightarrow> statement \<Rightarrow> exn + jsval"

text \<open>
  The inbound request: \<open>http_method\<close> is \<^verbatim>\<open>request.method\<close>, \<open>pathname\<close> is
  \<^verbatim>\<open>new URL(request.url).pathname\<close>, \<open>query_q\<close> is \<^verbatim>\<open>searchParams.get('q')\<close>, and
  \<open>json_body\<close> is what \<^verbatim>\<open>await request.json()\<close> gives: the parsed body, or the
  exception when the body is not JSON.
\<close>

record request =
  http_method :: string
  pathname :: string
  query_q :: "string option"
  json_body :: "exn + jsval"

text \<open>
  A response body is absent or the text \<^verbatim>\<open>JSON.stringify(d, null, n)\<close>, kept as the
  document and the indentation.
\<close>

datatype body = No_body | Json_text jsval nat

record response =
  status :: nat
  headers :: "(string \<times> string) list"
  body :: body

subsection \<open>Asynchronous computations\<close>

text \<open>
  An \<^verbatim>\<open>async\<close> computation takes the events so far and returns the events after it
  with its value, or with the exception that rejected it.
\<close>

type_synonym 'a io = "event list \<Rightarrow> event list \<times> (exn + 'a)"

definition return_io :: "'a \<Rightarrow> 'a io" where
  "return_io x = (\<lambda>t. (t, Inr x))"

definition throw_io :: "exn \<Rightarrow> 'a io" where
  "throw_io e = (\<lambda>t. (t, Inl e))"

definition lift_io :: "exn + 'a \<Rightarrow> 'a io" where
  "lift_io r = (\<lambda>t. (t, r))"

definition bind_io :: "'a io \<Rightarrow> ('a \<Rightarrow> 'b io) \<Rightarrow> 'b io" where
  "bind_io m f = (\<lambda>t. case m t of (t', Inl e) \<Rightarrow> (t', Inl e) | (t', Inr x) \<Rightarrow> f x t')"

definition catch_io :: "'a io \<Rightarrow> (exn \<Rightarrow> 'a io) \<Rightarrow> 'a io" where
  "catch_io m h = (\<lambda>t. case m t of (t', Inl e) \<Rightarrow> h e t' | (t', Inr x) \<Rightarrow> (t', Inr x))"

definition await_fetch :: "world \<Rightarrow> call \<Rightarrow> jsval io" where
  "await_fetch w c = (\<lambda>t. (t @ [Upstream c], upstream w t c))"

definition await_d1 :: "Env \<Rightarrow> statement \<Rightarrow> jsval io" where
  "await_d1 env q = (\<lambda>t. (t @ [Query q], CONTINUITY_DB env t q))"

definition console_log :: "string \<Rightarrow> unit io" where
  "console_log s = (\<lambda>t. (t @ [Console_log s], Inr ()))"

text \<open>\<^verbatim>\<open>const { ... } = await request.json()\<close>: destructuring a nullish value throws.\<close>

definition request_json :: "request \<Rightarrow> jsval io" where
  "request_json req =
     bind_io (lift_io (json_body req)) (\<lambda>b. if nullish b then throw_io TypeError else return_io b)"

section \<open>The response envelope\<close>

definition corsHeaders :: "(string \<times> string) list" where
  "corsHeaders =
     [(''Access-Control-Allow-Origin'', ''*''),
      (''Access-Control-Allow-Methods'', ''GET, POST, PUT, DELETE, OPTIONS''),
      (''Access-Control-Allow-Headers'', ''Content-Type, Authorization, X-API-Key'')]"

definition json :: "jsval \<Rightarrow> nat \<Rightarrow> response" where
  "json data st =
     \<lparr>status = st,
      headers = corsHeaders @ [(''Content-Type'', ''application/json'')],
      body = (case JSON_stringify data of None \<Rightarrow> No_body | Some d \<Rightarrow> Json_text d 2)\<rparr>"

definition json_payload :: "jsval \<Rightarrow> payload" where
  "json_payload data = (case JSON_stringify data of None \<Rightarrow> No_payload | Some d \<Rightarrow> Json_payload d)"

section \<open>Handlers\<close>

subsection \<open>GitHub\<close>

text \<open>
  The closure \<^verbatim>\<open>gh\<close>: one call of the source-control API, answered by the parsed JSON
  of the response whatever its HTTP status.
\<close>

definition gh_request :: "Env \<Rightarrow> string \<Rightarrow> string \<Rightarrow> payload \<Rightarrow> call" where
  "gh_request env endpoint v p =
     \<lparr>url = ''https://api.github.com'' @ endpoint,
      verb = v,
      call_headers =
        [(''Authorization'', ''token '' @ GITHUB_TOKEN env),
         (''Accept'', ''application/vnd.github.v3+json''),
         (''User-Agent'', ''BlackRoad-Command-Center'')],
      payload = p\<rparr>"

definition gh :: "world \<Rightarrow> Env \<Rightarrow> string \<Rightarrow> string \<Rightarrow> payload \<Rightarrow> jsval io" where
  "gh w env endpoint v p = await_fetch w (gh_request env endpoint v p)"

definition github_orgs :: "world \<Rightarrow> Env \<Rightarrow> response io" where
  "github_orgs w env =
     bind_io (gh w env ''/user/orgs?per_page=100'' ''GET'' No_payload) (\<lambda>orgs.
     bind_io (lift_io (js_map (project [(''name'', ''login''), (''url'', ''html_url'')]) orgs)) (\<lambda>xs.
     return_io (json xs 200)))"

definition github_repos :: "world \<Rightarrow> Env \<Rightarrow> string \<Rightarrow> response io" where
  "github_repos w env path =
     (let org = segment path 3 in
      bind_io (gh w env (''/orgs/'' @ ToString (NumberToString w) org @ ''/repos?per_page=100'')
                 ''GET'' No_payload) (\<lambda>repos.
      bind_io (lift_io (js_map (project [(''name'', ''name''), (''url'', ''html_url''),
                                          (''language'', ''language'')]) repos)) (\<lambda>xs.
      return_io (json xs 200))))"

definition github_repo :: "world \<Rightarrow> Env \<Rightarrow> request \<Rightarrow> response io" where
  "github_repo w env req =
     bind_io (request_json req) (\<lambda>body.
     (let org = dflt (get_prop body ''org'') (JStr ''BlackRoad-OS'');
          name = get_prop body ''name'';
          description = dflt (get_prop body ''description'') (JStr []);
          isPrivate = dflt (get_prop body ''private'') (JBool False)
      in
      bind_io (gh w env (''/orgs/'' @ ToString (NumberToString w) org @ ''/repos'') ''POST''
                 (json_payload (JObj [(''name'', name), (''description'', description),
                                      (''private'', isPrivate), (''auto_init'', JBool True)]))) (\<lambda>result.
      bind_io (lift_io (member result ''html_url'')) (\<lambda>html_url.
      return_io (json (JObj [(''created'', JBool True), (''url'', html_url),
                             (''name'', get_prop result ''name'')]) 200)))))"

text \<open>
  Create or update a file. The existence check is wrapped in \<^verbatim>\<open>try { ... } catch {}\<close>:
  a rejected call and a failing read of \<^verbatim>\<open>existing.sha\<close> both leave \<^verbatim>\<open>sha\<close>
  undefined.
\<close>

definition github_file :: "world \<Rightarrow> Env \<Rightarrow> request \<Rightarrow> response io" where
  "github_file w env req =
     bind_io (request_json req) (\<lambda>body.
     (let org = dflt (get_prop body ''org'') (JStr ''BlackRoad-OS'');
          repo = get_prop body ''repo'';
          filePath = get_prop body ''path'';
          content = get_prop body ''content'';
          message = dflt (get_prop body ''message'') (JStr ''Update via Command Center'')
      in
      bind_io (lift_io (btoa w (ToString (NumberToString w) content))) (\<lambda>encoded.
      (let endpoint = ''/repos/'' @ ToString (NumberToString w) org @ ''/''
                        @ ToString (NumberToString w) repo @ ''/contents/''
                        @ ToString (NumberToString w) filePath
       in
       bind_io (catch_io
                  (bind_io (gh w env endpoint ''GET'' No_payload) (\<lambda>existing.
                   lift_io (member existing ''sha'')))
                  (\<lambda>e. return_io JUndefined)) (\<lambda>sha.
       bind_io (gh w env endpoint ''PUT''
                  (json_payload (JObj [(''message'', message), (''content'', JStr encoded),
                                       (''sha'', sha)]))) (\<lambda>result.
       bind_io (lift_io (member result ''content'')) (\<lambda>c.
       return_io (json (JObj [(''success'', JBool True),
                              (''url'', if nullish c then JUndefined else get_prop c ''html_url'')])
                    200))))))))"

definition github_routes :: jsval where
  "github_routes =
     JArr [JStr ''/github/orgs'', JStr ''/github/repos/:org'', JStr ''/github/repo'',
           JStr ''/github/file'']"

definition handleGitHub :: "world \<Rightarrow> Env \<Rightarrow> request \<Rightarrow> string \<Rightarrow> response io" where
  "handleGitHub w env req path =
     (if path = ''/github/orgs'' \<and> http_method req = ''GET'' then github_orgs w env
      else if matches_id ''/github/repos/'' path \<and> http_method req = ''GET'' then github_repos w env path
      else if path = ''/github/repo'' \<and> http_method req = ''POST'' then github_repo w env req
      else if path = ''/github/file'' \<and> http_method req = ''POST'' then github_file w env req
      else return_io (json (JObj [(''error'', JStr ''Unknown GitHub route''),
                                  (''available'', github_routes)]) 404))"

subsection \<open>Stripe\<close>

text \<open>
  The closure \<^verbatim>\<open>stripe\<close>. A body is sent when the argument is truthy, as the entries
  of \<^verbatim>\<open>new URLSearchParams(body)\<close>.
\<close>

definition URLSearchParams :: "jsval \<Rightarrow> (string \<times> jsval) list" where
  "URLSearchParams b = (case b of JObj kvs \<Rightarrow> kvs | _ \<Rightarrow> [])"

definition stripe_request :: "Env \<Rightarrow> string \<Rightarrow> string \<Rightarrow> jsval \<Rightarrow> call" where
  "stripe_request env endpoint v b =
     \<lparr>url = ''https://api.stripe.com/v1'' @ endpoint,
      verb = v,
      call_headers =
        [(''Authorization'', ''Bearer '' @ STRIPE_SECRET_KEY env),
         (''Content-Type'', ''application/x-www-form-urlencoded'')],
      payload = (if truthy b then Form_payload (URLSearchParams b) else No_payload)\<rparr>"

definition stripe :: "world \<Rightarrow> Env \<Rightarrow> string \<Rightarrow> string \<Rightarrow> jsval \<Rightarrow> jsval io" where
  "stripe w env endpoint v b = await_fetch w (stripe_request env endpoint v b)"

definition stripe_products :: "world \<Rightarrow> Env \<Rightarrow> response io" where
  "stripe_products w env =
     bind_io (stripe w env ''/products?limit=100'' ''GET'' JUndefined) (\<lambda>products.
     bind_io (lift_io (member products ''data'')) (\<lambda>d.
     return_io (json d 200)))"

text \<open>The minor-unit amount \<^verbatim>\<open>Math.round(price * 100)\<close>.\<close>

definition unit_amount :: "world \<Rightarrow> jsval \<Rightarrow> jsnum" where
  "unit_amount w price =
     Math_round (js_times (ToNumber (NumberToString w) (StringToNumber w) price) (Finite 100))"

definition stripe_product :: "world \<Rightarrow> Env \<Rightarrow> request \<Rightarrow> response io" where
  "stripe_product w env req =
     bind_io (request_json req) (\<lambda>body.
     (let name = get_prop body ''name'';
          description = dflt (get_prop body ''description'') (JStr []);
          price = get_prop body ''price'';
          currency = dflt (get_prop body ''currency'') (JStr ''usd'');
          recurring = get_prop body ''recurring''
      in
      bind_io (stripe w env ''/products'' ''POST''
                 (JObj [(''name'', name), (''description'', description)])) (\<lambda>product.
      bind_io (lift_io (member product ''id'')) (\<lambda>product_id.
      (let priceData =
             [(''product'', product_id),
              (''unit_amount'', JNum (unit_amount w price)),
              (''currency'', currency)]
             @ (if truthy recurring then [(''recurring[interval]'', recurring)] else [])
       in
       bind_io (stripe w env ''/prices'' ''POST'' (JObj priceData)) (\<lambda>priceObj.
       bind_io (lift_io (member priceObj ''id'')) (\<lambda>price_id.
       bind_io (stripe w env ''/payment_links'' ''POST''
                  (JObj [(''line_items[0][price]'', price_id),
                         (''line_items[0][quantity]'', JNum (Finite 1))])) (\<lambda>link.
       bind_io (lift_io (member link ''url'')) (\<lambda>link_url.
       return_io (json (JObj [(''product'', JObj [(''id'', product_id),
                                                   (''name'', get_prop product ''name'')]),
                              (''price'', JObj [(''id'', price_id), (''amount'', price),
                                                 (''currency'', currency)]),
                              (''payment_link'', link_url)]) 200))))))))))"

definition stripe_customers :: "world \<Rightarrow> Env \<Rightarrow> response io" where
  "stripe_customers w env =
     bind_io (stripe w env ''/customers?limit=100'' ''GET'' JUndefined) (\<lambda>customers.
     bind_io (lift_io (member customers ''data'')) (\<lambda>d.
     bind_io (lift_io (js_map (project [(''id'', ''id''), (''email'', ''email''),
                                         (''name'', ''name'')]) d)) (\<lambda>xs.
     return_io (json xs 200))))"

definition stripe_routes :: jsval where
  "stripe_routes = JArr [JStr ''/stripe/products'', JStr ''/stripe/product'', JStr ''/stripe/customers'']"

definition handleStripe :: "world \<Rightarrow> Env \<Rightarrow> request \<Rightarrow> string \<Rightarrow> response io" where
  "handleStripe w env req path =
     (if path = ''/stripe/products'' \<and> http_method req = ''GET'' then stripe_products w env
      else if path = ''/stripe/product'' \<and> http_method req = ''POST'' then stripe_product w env req
      else if path = ''/stripe/customers'' \<and> http_method req = ''GET'' then stripe_customers w env
      else return_io (json (JObj [(''error'', JStr ''Unknown Stripe route''),
                                  (''available'', stripe_routes)]) 404))"

subsection \<open>HuggingFace\<close>

definition hf_request :: "Env \<Rightarrow> string \<Rightarrow> call" where
  "hf_request env endpoint =
     \<lparr>url = ''https://huggingface.co/api'' @ endpoint,
      verb = ''GET'',
      call_headers = [(''Authorization'', ''Bearer '' @ HF_TOKEN env)],
      payload = No_payload\<rparr>"

definition hf :: "world \<Rightarrow> Env \<Rightarrow> string \<Rightarrow> jsval io" where
  "hf w env endpoint = await_fetch w (hf_request env endpoint)"

text \<open>\<^verbatim>\<open>url.searchParams.get('q') || ''\<close>.\<close>

definition search_of :: "request \<Rightarrow> string" where
  "search_of req = (case query_q req of None \<Rightarrow> [] | Some q \<Rightarrow> q)"

definition hf_models :: "world \<Rightarrow> Env \<Rightarrow> request \<Rightarrow> response io" where
  "hf_models w env req =
     bind_io (hf w env (''/models?search='' @ search_of req @ ''&limit=20'')) (\<lambda>models.
     bind_io (lift_io (js_map (project [(''id'', ''id''), (''downloads'', ''downloads''),
                                         (''likes'', ''likes'')]) models)) (\<lambda>xs.
     return_io (json xs 200)))"

definition hf_spaces :: "world \<Rightarrow> Env \<Rightarrow> request \<Rightarrow> response io" where
  "hf_spaces w env req =
     bind_io (hf w env (''/spaces?search='' @ search_of req @ ''&limit=20'')) (\<lambda>spaces.
     return_io (json spaces 200))"

definition hf_routes :: jsval where
  "hf_routes = JArr [JStr ''/hf/models?q='', JStr ''/hf/spaces?q='']"

definition handleHuggingFace :: "world \<Rightarrow> Env \<Rightarrow> request \<Rightarrow> string \<Rightarrow> response io" where
  "handleHuggingFace w env req path =
     (if path = ''/hf/models'' \<and> http_method req = ''GET'' then hf_models w env req
      else if path = ''/hf/spaces'' \<and> http_method req = ''GET'' then hf_spaces w env req
      else return_io (json (JObj [(''error'', JStr ''Unknown HF route''),
                                  (''available'', hf_routes)]) 404))"

subsection \<open>Cloudflare\<close>

definition cf_request :: "Env \<Rightarrow> string \<Rightarrow> call" where
  "cf_request env endpoint =
     \<lparr>url = ''https://api.cloudflare.com/client/v4/accounts/'' @ CLOUDFLARE_ACCOUNT_ID env
              @ endpoint,
      verb = ''GET'',
      call_headers = [(''Authorization'', ''Bearer '' @ CLOUDFLARE_API_TOKEN env)],
      payload = No_payload\<rparr>"

definition cf :: "world \<Rightarrow> Env \<Rightarrow> string \<Rightarrow> jsval io" where
  "cf w env endpoint = await_fetch w (cf_request env endpoint)"

text \<open>
  \<^verbatim>\<open>x?.map(f) || []\<close>: the optional chain stops at a nullish \<open>x\<close> and gives
  \<^verbatim>\<open>undefined\<close>; on any other value the call is made.
\<close>

definition optional_map_or_empty :: "(jsval \<Rightarrow> exn + jsval) \<Rightarrow> jsval \<Rightarrow> exn + jsval" where
  "optional_map_or_empty f x =
     (if nullish x then Inr (js_or JUndefined (JArr []))
      else (case js_map f x of Inl e \<Rightarrow> Inl e | Inr ys \<Rightarrow> Inr (js_or ys (JArr []))))"

definition cf_workers :: "world \<Rightarrow> Env \<Rightarrow> response io" where
  "cf_workers w env =
     bind_io (cf w env ''/workers/scripts'') (\<lambda>result.
     bind_io (lift_io (member result ''result'')) (\<lambda>r.
     bind_io (lift_io (optional_map_or_empty
                         (project [(''name'', ''id''), (''modified'', ''modified_on'')]) r)) (\<lambda>xs.
     return_io (json xs 200))))"

definition cf_kv :: "world \<Rightarrow> Env \<Rightarrow> response io" where
  "cf_kv w env =
     bind_io (cf w env ''/storage/kv/namespaces'') (\<lambda>result.
     bind_io (lift_io (member result ''result'')) (\<lambda>r.
     bind_io (lift_io (optional_map_or_empty
                         (project [(''id'', ''id''), (''title'', ''title'')]) r)) (\<lambda>xs.
     return_io (json xs 200))))"

definition cf_d1 :: "world \<Rightarrow> Env \<Rightarrow> response io" where
  "cf_d1 w env =
     bind_io (cf w env ''/d1/database'') (\<lambda>result.
     bind_io (lift_io (member result ''result'')) (\<lambda>r.
     bind_io (lift_io (optional_map_or_empty
                         (project [(''id'', ''uuid''), (''name'', ''name'')]) r)) (\<lambda>xs.
     return_io (json xs 200))))"

definition cf_routes :: jsval where
  "cf_routes = JArr [JStr ''/cf/workers'', JStr ''/cf/kv'', JStr ''/cf/d1'']"

definition handleCloudflare :: "world \<Rightarrow> Env \<Rightarrow> request \<Rightarrow> string \<Rightarrow> response io" where
  "handleCloudflare w env req path =
     (if path = ''/cf/workers'' \<and> http_method req = ''GET'' then cf_workers w env
      else if path = ''/cf/kv'' \<and> http_method req = ''GET'' then cf_kv w env
      else if path = ''/cf/d1'' \<and> http_method req = ''GET'' then cf_d1 w env
      else return_io (json (JObj [(''error'', JStr ''Unknown CF route''),
                                  (''available'', cf_routes)]) 404))"

subsection \<open>Agents\<close>

definition select_all :: statement where
  "select_all = \<lparr>sql = ''SELECT * FROM agents LIMIT 100'', binds = [], run_as = D1_all\<rparr>"

definition select_by_id :: "jsval \<Rightarrow> statement" where
  "select_by_id v =
     \<lparr>sql = ''SELECT * FROM agents WHERE id = ?'', binds = [v], run_as = D1_first\<rparr>"

definition agents_list :: "Env \<Rightarrow> response io" where
  "agents_list env =
     bind_io (await_d1 env select_all) (\<lambda>result.
     bind_io (lift_io (member result ''results'')) (\<lambda>rows.
     return_io (json (js_or rows (JArr [])) 200)))"

definition agents_create :: "world \<Rightarrow> Env \<Rightarrow> request \<Rightarrow> response io" where
  "agents_create w env req =
     bind_io (request_json req) (\<lambda>body.
     (let name = get_prop body ''name'';
          type = dflt (get_prop body ''type'') (JStr ''general'');
          capabilities = dflt (get_prop body ''capabilities'') (JArr []);
          birthday = get_prop body ''birthday'';
          id = JStr (randomUUID w)
      in
      bind_io (await_d1 env
                 \<lparr>sql = ''INSERT INTO agents (id, name, type, capabilities, birthday, created_at) VALUES (?, ?, ?, ?, ?, ?)'',
                  binds =
                    [id, name, type,
                     (case JSON_stringify capabilities of
                        None \<Rightarrow> JUndefined
                      | Some d \<Rightarrow> JStr (stringify_text w d)),
                     js_or birthday (JStr (toISOString w 0)),
                     JStr (toISOString w (if truthy birthday then 0 else 1))],
                  run_as = D1_run\<rparr>) (\<lambda>done.
      return_io (json (JObj [(''created'', JBool True), (''id'', id), (''name'', name)]) 200))))"

definition agents_get :: "Env \<Rightarrow> string \<Rightarrow> response io" where
  "agents_get env path =
     (let id = segment path 2 in
      bind_io (await_d1 env (select_by_id id)) (\<lambda>result.
      return_io (if truthy result then json result 200
                 else json (JObj [(''error'', JStr ''Agent not found'')]) 404)))"

definition agents_routes :: jsval where
  "agents_routes = JArr [JStr ''/agents'', JStr ''/agents/:id'']"

definition handleAgents :: "world \<Rightarrow> Env \<Rightarrow> request \<Rightarrow> string \<Rightarrow> response io" where
  "handleAgents w env req path =
     (if path = ''/agents'' \<and> http_method req = ''GET'' then agents_list env
      else if path = ''/agents'' \<and> http_method req = ''POST'' then agents_create w env req
      else if matches_id ''/agents/'' path \<and> http_method req = ''GET'' then agents_get env path
      else return_io (json (JObj [(''error'', JStr ''Unknown agents route''),
                                  (''available'', agents_routes)]) 404))"

subsection \<open>Notify\<close>

text \<open>
  The loop over the channels: a channel that is strictly equal to \<^verbatim>\<open>'log'\<close> writes a log
  line and sets \<^verbatim>\<open>results.log\<close>; every other channel does nothing.
\<close>

fun notify_loop :: "string \<Rightarrow> jsval list \<Rightarrow> (string \<times> jsval) list \<Rightarrow> (string \<times> jsval) list io" where
  "notify_loop line [] results = return_io results"
| "notify_loop line (channel # channels) results =
     (if channel = JStr ''log''
      then bind_io (console_log line) (\<lambda>u.
           notify_loop line channels (AList.update ''log'' (JBool True) results))
      else notify_loop line channels results)"

definition handleNotify :: "world \<Rightarrow> Env \<Rightarrow> request \<Rightarrow> string \<Rightarrow> response io" where
  "handleNotify w env req path =
     (if http_method req \<noteq> ''POST'' then return_io (json (JObj [(''error'', JStr ''POST only'')]) 405)
      else
        bind_io (request_json req) (\<lambda>body.
        (let message = get_prop body ''message'';
             channels = dflt (get_prop body ''channels'') (JArr [JStr ''log''])
         in
         bind_io (lift_io (iterate channels)) (\<lambda>cs.
         bind_io (notify_loop (''[NOTIFY] '' @ ToString (NumberToString w) message) cs []) (\<lambda>results.
         return_io (json (JObj [(''sent'', JBool True), (''channels'', JObj results)]) 200))))))"

subsection \<open>Stats\<close>

definition handleStats :: "world \<Rightarrow> Env \<Rightarrow> response io" where
  "handleStats w env =
     return_io (json (JObj
       [(''timestamp'', JStr (toISOString w 0)),
        (''github'', JObj [(''orgs'', JNum (Finite 15)), (''repos'', JStr ''315+'')]),
        (''cloudflare'', JObj [(''workers'', JNum (Finite 82)), (''d1'', JNum (Finite 11)),
                               (''kv'', JNum (Finite 20))]),
        (''stripe'', JObj [(''account'', JStr ''acct_1SUDM8ChUUSEbzyh'')]),
        (''huggingface'', JObj [(''user'', JStr ''blackroadio'')])]) 200)"

section \<open>The entry point\<close>

definition known_prefixes :: jsval where
  "known_prefixes =
     JArr [JStr ''/github'', JStr ''/stripe'', JStr ''/hf'', JStr ''/cf'', JStr ''/agents'',
           JStr ''/notify'', JStr ''/stats'']"

definition preflight :: response where
  "preflight = \<lparr>status = 200, headers = corsHeaders, body = No_body\<rparr>"

text \<open>
  The dispatch inside \<^verbatim>\<open>try { ... }\<close>. Each branch returns the promise of its handler
  without awaiting it, so a rejection of the handler is not caught by the \<^verbatim>\<open>catch\<close>
  clause: it rejects the promise of \<^verbatim>\<open>fetch\<close>. Nothing in the block throws synchronously.
\<close>

definition dispatch :: "world \<Rightarrow> Env \<Rightarrow> request \<Rightarrow> response io" where
  "dispatch w env req =
     (let path = pathname req in
      if path = ''/'' \<or> path = ''/health''
      then return_io (json (JObj [(''status'', JStr ''ok''),
                                  (''service'', JStr ''blackroad-command-center''),
                                  (''version'', JStr ''1.0.0'')]) 200)
      else if startsWith path ''/github'' then handleGitHub w env req path
      else if startsWith path ''/stripe'' then handleStripe w env req path
      else if startsWith path ''/hf'' then handleHuggingFace w env req path
      else if startsWith path ''/cf'' then handleCloudflare w env req path
      else if startsWith path ''/agents'' then handleAgents w env req path
      else if startsWith path ''/notify'' then handleNotify w env req path
      else if path = ''/stats'' then handleStats w env
      else return_io (json (JObj [(''error'', JStr ''Not found''),
                                  (''routes'', known_prefixes)]) 404))"

text \<open>
  \<open>fetch w env req\<close> is the run of the worker on one request: the events it caused, in
  order, and the response it resolved with or the exception it rejected with.
\<close>

definition fetch :: "world \<Rightarrow> Env \<Rightarrow> request \<Rightarrow> event list \<times> (exn + response)" where
  "fetch w env req =
     (if http_method req = ''OPTIONS'' then ([], Inr preflight) else dispatch w env req [])"

section \<open>Vocabulary of the properties\<close>

text \<open>A JSON document: a value that a JSON text can denote.\<close>

primrec json_doc :: "jsval \<Rightarrow> bool" where
  "json_doc JUndefined = False"
| "json_doc JNull = True"
| "json_doc (JBool b) = True"
| "json_doc (JNum n) = (case n of Finite x \<Rightarrow> True | _ \<Rightarrow> False)"
| "json_doc (JStr s) = True"
| "json_doc (JArr xs) = list_all id (map json_doc xs)"
| "json_doc (JObj kvs) = list_all id (map (\<lambda>p. snd p) (map (map_prod id json_doc) kvs))"

text \<open>
  The revision marker the existence check of the file upsert yields, given the outcome
  of its call: \<^verbatim>\<open>undefined\<close> when the call is rejected or its answer has no \<^verbatim>\<open>sha\<close>.
\<close>

definition revision_marker :: "exn + jsval \<Rightarrow> jsval" where
  "revision_marker r = (case r of Inl e \<Rightarrow> JUndefined | Inr existing \<Rightarrow> get_prop existing ''sha'')"

text \<open>The endpoint of the file named by the body of a \<^verbatim>\<open>POST /github/file\<close> request.\<close>

definition contents_endpoint :: "world \<Rightarrow> jsval \<Rightarrow> string" where
  "contents_endpoint w b =
     ''/repos/'' @ ToString (NumberToString w) (dflt (get_prop b ''org'') (JStr ''BlackRoad-OS''))
       @ ''/'' @ ToString (NumberToString w) (get_prop b ''repo'')
       @ ''/contents/'' @ ToString (NumberToString w) (get_prop b ''path'')"

text \<open>
  The calls the source-control API is expected to receive for the file at an endpoint,
  written out field by field: the read of its metadata, which has no body, and the write,
  a \<^verbatim>\<open>PUT\<close> whose JSON body is the object with the given entries.
\<close>

definition metadata_call :: "Env \<Rightarrow> string \<Rightarrow> call" where
  "metadata_call env endpoint =
     \<lparr>url = ''https://api.github.com'' @ endpoint,
      verb = ''GET'',
      call_headers =
        [(''Authorization'', ''token '' @ GITHUB_TOKEN env),
         (''Accept'', ''application/vnd.github.v3+json''),
         (''User-Agent'', ''BlackRoad-Command-Center'')],
      payload = No_payload\<rparr>"

definition write_call :: "Env \<Rightarrow> string \<Rightarrow> (string \<times> jsval) list \<Rightarrow> call" where
  "write_call env endpoint entries =
     \<lparr>url = ''https://api.github.com'' @ endpoint,
      verb = ''PUT'',
      call_headers =
        [(''Authorization'', ''token '' @ GITHUB_TOKEN env),
         (''Accept'', ''application/vnd.github.v3+json''),
         (''User-Agent'', ''BlackRoad-Command-Center'')],
      payload = Json_payload (JObj entries)\<rparr>"

text \<open>
  A \<^verbatim>\<open>POST\<close> that the payments API is expected to receive, written out field by field:
  its form body has the given entries, in order.
\<close>

definition stripe_post :: "Env \<Rightarrow> string \<Rightarrow> (string \<times> jsval) list \<Rightarrow> call" where
  "stripe_post env endpoint entries =
     \<lparr>url = ''https://api.stripe.com/v1'' @ endpoint,
      verb = ''POST'',
      call_headers =
        [(''Authorization'', ''Bearer '' @ STRIPE_SECRET_KEY env),
         (''Content-Type'', ''application/x-www-form-urlencoded'')],
      payload = Form_payload entries\<rparr>"

text \<open>The product creation expected for the body of a \<^verbatim>\<open>POST /stripe/product\<close> request.\<close>

definition create_product :: "Env \<Rightarrow> jsval \<Rightarrow> call" where
  "create_product env b =
     stripe_post env ''/products''
       [(''name'', get_prop b ''name''),
        (''description'', dflt (get_prop b ''description'') (JStr []))]"

text \<open>
  The scenario \<^verbatim>\<open>{"name":"Pro Plan","price":29.99,"recurring":"month"}\<close>: the price is the
  Number that the literal \<^verbatim>\<open>29.99\<close> denotes.
\<close>

definition pro_plan :: jsval where
  "pro_plan =
     JObj [(''name'', JStr ''Pro Plan''), (''price'', JNum (to_double (2999 / 100))),
           (''recurring'', JStr ''month'')]"

text \<open>A routing 404: an error message and, under \<open>key\<close>, the list of valid routes.\<close>

definition route_hint :: "string \<Rightarrow> string \<Rightarrow> jsval \<Rightarrow> response" where
  "route_hint msg key routes =
     \<lparr>status = 404,
      headers = corsHeaders @ [(''Content-Type'', ''application/json'')],
      body = Json_text (JObj [(''error'', JStr msg), (key, routes)]) 2\<rparr>"

text \<open>The route tables of the five groups that have one: method and path.\<close>

definition github_route :: "string \<Rightarrow> string \<Rightarrow> bool" where
  "github_route m p =
     (p = ''/github/orgs'' \<and> m = ''GET'' \<or> matches_id ''/github/repos/'' p \<and> m = ''GET''
      \<or> p = ''/github/repo'' \<and> m = ''POST'' \<or> p = ''/github/file'' \<and> m = ''POST'')"

definition stripe_route :: "string \<Rightarrow> string \<Rightarrow> bool" where
  "stripe_route m p =
     (p = ''/stripe/products'' \<and> m = ''GET'' \<or> p = ''/stripe/product'' \<and> m = ''POST''
      \<or> p = ''/stripe/customers'' \<and> m = ''GET'')"

definition hf_route :: "string \<Rightarrow> string \<Rightarrow> bool" where
  "hf_route m p = (p = ''/hf/models'' \<and> m = ''GET'' \<or> p = ''/hf/spaces'' \<and> m = ''GET'')"

definition cf_route :: "string \<Rightarrow> string \<Rightarrow> bool" where
  "cf_route m p =
     (p = ''/cf/workers'' \<and> m = ''GET'' \<or> p = ''/cf/kv'' \<and> m = ''GET'' \<or> p = ''/cf/d1'' \<and> m = ''GET'')"

definition agents_route :: "string \<Rightarrow> string \<Rightarrow> bool" where
  "agents_route m p =
     (p = ''/agents'' \<and> m = ''GET'' \<or> p = ''/agents'' \<and> m = ''POST''
      \<or> matches_id ''/agents/'' p \<and> m = ''GET'')"

text \<open>
  The envelope of \<open>json\<close>: the CORS headers with the content type, and a body that is
  absent or indented by two.
\<close>

definition enveloped :: "response \<Rightarrow> bool" where
  "enveloped r =
     (headers r = corsHeaders @ [(''Content-Type'', ''application/json'')]
      \<and> (case body r of No_body \<Rightarrow> True | Json_text d n \<Rightarrow> n = 2))"

definition enveloped_io :: "response io \<Rightarrow> bool" where
  "enveloped_io m = (\<forall>t. case snd (m t) of Inl e \<Rightarrow> True | Inr r \<Rightarrow> enveloped r)"

section \<open>Sample surroundings\<close>

text \<open>
  A record store that holds the given rows and answers the three kinds of statement, and
  upstream services with fixed answers; the concrete runs below use them. The conversions
  between Numbers and strings are stand-ins: no run below prints or parses a Number.
  \<open>demo_btoa\<close> is \<^verbatim>\<open>btoa\<close> on a string given by the bytes of its UTF-8 form: a character
  up to U+00FF is one byte below 128, or the lead byte 194 or 195 and one more byte; any
  other lead byte begins a character that \<^verbatim>\<open>btoa\<close> refuses.
\<close>

definition b64_digit :: "nat \<Rightarrow> char" where
  "b64_digit n = ''ABCDEFGHIJKLMNOPQRSTUVWXYZabcdefghijklmnopqrstuvwxyz0123456789+/'' ! n"

fun base64 :: "nat list \<Rightarrow> string" where
  "base64 [] = []"
| "base64 [a] = [b64_digit (a div 4), b64_digit (a mod 4 * 16), CHR ''='', CHR ''='']"
| "base64 [a, b] =
     [b64_digit (a div 4), b64_digit (a mod 4 * 16 + b div 16), b64_digit (b mod 16 * 4), CHR ''='']"
| "base64 (a # b # c # rest) =
     [b64_digit (a div 4), b64_digit (a mod 4 * 16 + b div 16),
      b64_digit (b mod 16 * 4 + c div 64), b64_digit (c mod 64)] @ base64 rest"

definition prepend_unit :: "nat \<Rightarrow> exn + nat list \<Rightarrow> exn + nat list" where
  "prepend_unit u r = (case r of Inl e \<Rightarrow> Inl e | Inr us \<Rightarrow> Inr (u # us))"

fun latin1_units :: "string \<Rightarrow> exn + nat list" where
  "latin1_units [] = Inr []"
| "latin1_units [c] =
     (if of_char c < (128 :: nat) then Inr [of_char c] else Inl InvalidCharacterError)"
| "latin1_units (c # d # ds) =
     (if of_char c < (128 :: nat) then prepend_unit (of_char c) (latin1_units (d # ds))
      else if of_char c = (194 :: nat) \<or> of_char c = (195 :: nat)
      then prepend_unit ((of_char c - 194) * 64 + of_char d) (latin1_units ds)
      else Inl InvalidCharacterError)"

definition demo_btoa :: "string \<Rightarrow> exn + string" where
  "demo_btoa s = (case latin1_units s of Inl e \<Rightarrow> Inl e | Inr us \<Rightarrow> Inr (base64 us))"

definition d1_table :: "jsval list \<Rightarrow> event list \<Rightarrow> statement \<Rightarrow> exn + jsval" where
  "d1_table rows t q =
     (case run_as q of
        D1_all \<Rightarrow> Inr (JObj [(''results'', JArr (take 100 rows)), (''success'', JBool True)])
      | D1_first \<Rightarrow>
          Inr (case find (\<lambda>r. [get_prop r ''id''] = binds q) rows of None \<Rightarrow> JNull | Some r \<Rightarrow> r)
      | D1_run \<Rightarrow> Inr (JObj [(''success'', JBool True)]))"

definition demo_upstream :: "event list \<Rightarrow> call \<Rightarrow> exn + jsval" where
  "demo_upstream t c =
     (if url c = ''https://api.stripe.com/v1/products''
      then Inr (JObj [(''id'', JStr ''prod_1''), (''name'', JStr ''Pro Plan'')])
      else if url c = ''https://api.stripe.com/v1/prices''
      then Inr (JObj [(''id'', JStr ''price_1'')])
      else if url c = ''https://api.stripe.com/v1/payment_links''
      then Inr (JObj [(''url'', JStr ''https://buy.stripe.com/test_1'')])
      else if url c = ''https://api.github.com/repos/BlackRoad-OS/docs/contents/README.md''
      then (if verb c = ''GET'' then Inr (JObj [(''sha'', JStr ''95b966ae'')])
            else Inr (JObj [(''content'', JObj [(''html_url'', JStr ''https://github.com/README.md'')])]))
      else if url c = ''https://api.github.com/repos/BlackRoad-OS/docs/contents/NEW.md''
      then (if verb c = ''GET'' then Inr (JObj [(''message'', JStr ''Not Found'')])
            else Inr (JObj [(''content'', JObj [(''html_url'', JStr ''https://github.com/NEW.md'')])]))
      else if url c = ''https://api.cloudflare.com/client/v4/accounts/acct/workers/scripts''
      then Inr (JObj [(''success'', JBool False), (''errors'', JArr [])])
      else if url c = ''https://api.cloudflare.com/client/v4/accounts/acct/storage/kv/namespaces''
      then Inr (JObj [(''success'', JBool False), (''result'', JNull)])
      else if url c = ''https://api.cloudflare.com/client/v4/accounts/acct/d1/database''
      then Inr (JObj [])
      else Inl (Failure ''unreachable''))"

definition demo_world :: world where
  "demo_world =
     \<lparr>upstream = demo_upstream,
      NumberToString = (\<lambda>n. ''NaN''),
      StringToNumber = (\<lambda>s. NaN),
      btoa = demo_btoa,
      stringify_text = (\<lambda>d. ''[]''),
      randomUUID = ''00000000-0000-4000-8000-000000000000'',
      toISOString = (\<lambda>k. ''2026-01-01T00:00:00.000Z'')\<rparr>"

definition demo_env :: Env where
  "demo_env =
     \<lparr>GITHUB_TOKEN = ''ghp_demo'',
      STRIPE_SECRET_KEY = ''sk_test_demo'',
      HF_TOKEN = ''hf_demo'',
      CLOUDFLARE_API_TOKEN = ''cf_demo'',
      CLOUDFLARE_ACCOUNT_ID = ''acct'',
      CONTINUITY_DB = d1_table []\<rparr>"

text \<open>A request without a body (reading it as JSON fails), and one with a JSON body.\<close>

definition bare_request :: "string \<Rightarrow> string \<Rightarrow> request" where
  "bare_request m p = \<lparr>http_method = m, pathname = p, query_q = None, json_body = Inl SyntaxError\<rparr>"

definition json_request :: "string \<Rightarrow> string \<Rightarrow> jsval \<Rightarrow> request" where
  "json_request m p b = \<lparr>http_method = m, pathname = p, query_q = None, json_body = Inr b\<rparr>"

section \<open>Auxiliary facts\<close>

subsection \<open>Values\<close>

lemma get_prop_nullish: "nullish v \<Longrightarrow> get_prop v k = JUndefined"
  by (auto simp: nullish_def get_prop_def)

lemma stringify_defined: "v \<noteq> JUndefined \<Longrightarrow> \<exists>d. JSON_stringify v = Some d"
  by (cases v) auto

lemma stringify_default: "\<exists>m. JSON_stringify (dflt v (JStr s)) = Some m"
  by (rule stringify_defined) (simp add: dflt_def)

text \<open>\<^verbatim>\<open>JSON.stringify\<close> writes a JSON document as it is.\<close>

lemma JSON_stringify_doc: "json_doc v \<Longrightarrow> JSON_stringify v = Some v"
proof (induction v)
  case (JArr xs)
  then have "map (\<lambda>r. case r of None \<Rightarrow> JNull | Some d \<Rightarrow> d) (map JSON_stringify xs) = xs"
    by (induction xs) auto
  then show ?case by simp
next
  case (JObj kvs)
  then have "concat (map (\<lambda>(k, r). case r of None \<Rightarrow> [] | Some d \<Rightarrow> [(k, d)])
                             (map (map_prod id JSON_stringify) kvs)) = kvs"
  proof (induction kvs)
    case Nil
    show ?case by simp
  next
    case (Cons kv kvs)
    obtain k v where kv: "kv = (k, v)" by (cases kv)
    have "JSON_stringify v = Some v"
      using Cons.prems kv by (auto intro: Cons.prems(1)[of kv v])
    moreover have "concat (map (\<lambda>(k, r). case r of None \<Rightarrow> [] | Some d \<Rightarrow> [(k, d)])
                             (map (map_prod id JSON_stringify) kvs)) = kvs"
      using Cons.prems by (intro Cons.IH) auto
    ultimately show ?case by (simp add: kv id_def)
  qed
  then show ?case by simp
qed (auto split: jsnum.splits)

subsection \<open>Numbers\<close>

lemma double_29_99: "to_double (2999 / 100) = Finite (8441434551552573 / 281474976710656)"
  by code_simp

lemma round_29_99: "Math_round (js_times (to_double (2999 / 100)) (Finite 100)) = Finite 2999"
  by code_simp

lemma round_10_005: "Math_round (js_times (to_double (10005 / 1000)) (Finite 100)) = Finite 1001"
  by code_simp

lemma Math_round_nearest:
  "\<exists>n. Math_round (Finite x) = Finite (of_int n) \<and> \<bar>x - of_int n\<bar> \<le> 1 / 2"
proof -
  have "\<bar>x - of_int \<lfloor>x + 1 / 2\<rfloor>\<bar> \<le> 1 / 2"
    by linarith
  then show ?thesis by auto
qed

subsection \<open>Asynchronous computations\<close>

lemma bind_return [simp]: "bind_io (return_io x) f = f x"
  by (simp add: bind_io_def return_io_def)

lemma bind_throw [simp]: "bind_io (throw_io e) f = throw_io e"
  by (simp add: bind_io_def throw_io_def)

lemma bind_lift_Inr [simp]: "bind_io (lift_io (Inr x)) f = f x"
  by (simp add: bind_io_def lift_io_def)

lemma bind_lift_Inl [simp]: "bind_io (lift_io (Inl e)) f = throw_io e"
  by (simp add: bind_io_def lift_io_def throw_io_def)

lemma bind_await_fetch:
  "bind_io (await_fetch w c) f t =
     (case upstream w t c of
        Inl e \<Rightarrow> (t @ [Upstream c], Inl e)
      | Inr x \<Rightarrow> f x (t @ [Upstream c]))"
  by (simp add: bind_io_def await_fetch_def)

lemma bind_await_d1:
  "bind_io (await_d1 env q) f t =
     (case CONTINUITY_DB env t q of
        Inl e \<Rightarrow> (t @ [Query q], Inl e)
      | Inr x \<Rightarrow> f x (t @ [Query q]))"
  by (simp add: bind_io_def await_d1_def)

lemma return_io_apply: "return_io x t = (t, Inr x)"
  by (simp add: return_io_def)

lemma throw_io_apply: "throw_io e t = (t, Inl e)"
  by (simp add: throw_io_def)

lemma lift_io_apply: "lift_io r t = (t, r)"
  by (simp add: lift_io_def)

lemmas io_simps = bind_await_fetch bind_await_d1 return_io_apply throw_io_apply lift_io_apply

lemmas io_defs = bind_io_def return_io_def throw_io_def lift_io_def catch_io_def
  await_fetch_def await_d1_def console_log_def request_json_def

lemma request_json_ok:
  "json_body req = Inr b \<Longrightarrow> \<not> nullish b \<Longrightarrow> request_json req = return_io b"
  by (simp add: request_json_def)

text \<open>The loop writes one line for each \<^verbatim>\<open>'log'\<close> channel and never fails.\<close>

lemma notify_loop_run:
  "notify_loop line cs rs t =
     (t @ replicate (count_list cs (JStr ''log'')) (Console_log line),
      Inr (if JStr ''log'' \<in> set cs then AList.update ''log'' (JBool True) rs else rs))"
proof (induction cs arbitrary: rs t)
  case Nil
  show ?case by (simp add: return_io_def)
next
  case (Cons c cs)
  show ?case
    by (simp add: Cons.IH bind_io_def console_log_def replicate_app_Cons_same)
qed

lemma notify_status:
  assumes "handleNotify w env req path t = (tr, Inr r)"
  shows "status r = 405 \<or> status r = 200"
  using assms
  by (auto simp: handleNotify_def Let_def bind_io_def return_io_def throw_io_def lift_io_def
      request_json_def notify_loop_run json_def split: if_splits sum.splits prod.splits)

subsection \<open>Paths and dispatch\<close>

lemma split_on_none: "d \<notin> set s \<Longrightarrow> split_on d s = [s]"
  by (induction s) auto

lemma id_char_not_slash: "id_char c \<Longrightarrow> c \<noteq> CHR ''/''"
  by (auto simp: id_char_def)

lemma segment_agents:
  assumes "list_all id_char ident"
  shows "segment (''/agents/'' @ ident) 2 = JStr ident"
proof -
  have "CHR ''/'' \<notin> set ident"
    using assms id_char_not_slash by (auto simp: list_all_iff)
  then show ?thesis
    by (simp add: segment_def split_on_none)
qed

lemma startsWith_both:
  assumes "startsWith p a" and "startsWith p b" and "length a \<le> length b"
  shows "take (length a) b = a"
proof -
  have "take (length a) b = take (length a) (take (length b) p)"
    using assms(2) by (simp add: startsWith_def)
  also have "\<dots> = take (length a) p"
    using assms(3) by (simp add: min_def)
  finally show ?thesis
    using assms(1) by (simp add: startsWith_def)
qed

text \<open>No path begins with two of the group prefixes.\<close>

lemma prefixes_exclusive:
  "startsWith p ''/stripe'' \<Longrightarrow> \<not> startsWith p ''/github''"
  "startsWith p ''/hf'' \<Longrightarrow> \<not> startsWith p ''/github'' \<and> \<not> startsWith p ''/stripe''"
  "startsWith p ''/cf'' \<Longrightarrow> \<not> startsWith p ''/github'' \<and> \<not> startsWith p ''/stripe'' \<and> \<not> startsWith p ''/hf''"
  "startsWith p ''/agents'' \<Longrightarrow> \<not> startsWith p ''/github'' \<and> \<not> startsWith p ''/stripe''
     \<and> \<not> startsWith p ''/hf'' \<and> \<not> startsWith p ''/cf''"
  "startsWith p ''/notify'' \<Longrightarrow> \<not> startsWith p ''/github'' \<and> \<not> startsWith p ''/stripe''
     \<and> \<not> startsWith p ''/hf'' \<and> \<not> startsWith p ''/cf'' \<and> \<not> startsWith p ''/agents''"
  using startsWith_both[of p "''/hf''"] startsWith_both[of p "''/cf''"]
    startsWith_both[of p "''/agents''"] startsWith_both[of p "''/notify''"]
    startsWith_both[of p "''/stripe''"]
  by fastforce+

lemma prefix_not_health:
  "startsWith p ''/github'' \<or> startsWith p ''/stripe'' \<or> startsWith p ''/hf'' \<or> startsWith p ''/cf''
     \<or> startsWith p ''/agents'' \<or> startsWith p ''/notify'' \<Longrightarrow> p \<noteq> ''/'' \<and> p \<noteq> ''/health''"
  by (auto simp: startsWith_def)

lemma dispatch_group:
  "startsWith (pathname req) ''/github'' \<Longrightarrow> dispatch w env req = handleGitHub w env req (pathname req)"
  "startsWith (pathname req) ''/stripe'' \<Longrightarrow> dispatch w env req = handleStripe w env req (pathname req)"
  "startsWith (pathname req) ''/hf'' \<Longrightarrow> dispatch w env req = handleHuggingFace w env req (pathname req)"
  "startsWith (pathname req) ''/cf'' \<Longrightarrow> dispatch w env req = handleCloudflare w env req (pathname req)"
  "startsWith (pathname req) ''/agents'' \<Longrightarrow> dispatch w env req = handleAgents w env req (pathname req)"
  "startsWith (pathname req) ''/notify'' \<Longrightarrow> dispatch w env req = handleNotify w env req (pathname req)"
  using prefix_not_health[of "pathname req"] prefixes_exclusive[of "pathname req"]
  by (simp_all add: dispatch_def Let_def)

subsection \<open>Routing 404s\<close>

lemma json_route_hint:
  "json (JObj [(''error'', JStr msg), (key, JArr (map JStr rs))]) 404 = route_hint msg key (JArr (map JStr rs))"
  by (simp add: json_def route_hint_def comp_def)

lemma routes_as_map:
  "known_prefixes = JArr (map JStr [''/github'', ''/stripe'', ''/hf'', ''/cf'', ''/agents'', ''/notify'', ''/stats''])"
  "github_routes = JArr (map JStr [''/github/orgs'', ''/github/repos/:org'', ''/github/repo'', ''/github/file''])"
  "stripe_routes = JArr (map JStr [''/stripe/products'', ''/stripe/product'', ''/stripe/customers''])"
  "hf_routes = JArr (map JStr [''/hf/models?q='', ''/hf/spaces?q=''])"
  "cf_routes = JArr (map JStr [''/cf/workers'', ''/cf/kv'', ''/cf/d1''])"
  "agents_routes = JArr (map JStr [''/agents'', ''/agents/:id''])"
  by (simp_all add: known_prefixes_def github_routes_def stripe_routes_def hf_routes_def
      cf_routes_def agents_routes_def)

lemma hint_simps:
  "json (JObj [(''error'', JStr msg), (''routes'', known_prefixes)]) 404 = route_hint msg ''routes'' known_prefixes"
  "json (JObj [(''error'', JStr msg), (''available'', github_routes)]) 404 = route_hint msg ''available'' github_routes"
  "json (JObj [(''error'', JStr msg), (''available'', stripe_routes)]) 404 = route_hint msg ''available'' stripe_routes"
  "json (JObj [(''error'', JStr msg), (''available'', hf_routes)]) 404 = route_hint msg ''available'' hf_routes"
  "json (JObj [(''error'', JStr msg), (''available'', cf_routes)]) 404 = route_hint msg ''available'' cf_routes"
  "json (JObj [(''error'', JStr msg), (''available'', agents_routes)]) 404 = route_hint msg ''available'' agents_routes"
  unfolding routes_as_map by (rule json_route_hint)+

subsection \<open>The envelope\<close>

lemma enveloped_json: "enveloped (json d s)"
  by (simp add: enveloped_def json_def split: option.splits)

lemma enveloped_return: "enveloped_io (return_io (json d s))"
  by (simp add: enveloped_io_def return_io_def enveloped_json)

lemma enveloped_throw: "enveloped_io (throw_io e)"
  by (simp add: enveloped_io_def throw_io_def)

lemma enveloped_bind:
  assumes "\<And>x. enveloped_io (f x)"
  shows "enveloped_io (bind_io m f)"
  unfolding enveloped_io_def
proof
  fix t
  obtain t' v where mt: "m t = (t', v)"
    by (cases "m t")
  show "case snd (bind_io m f t) of Inl e \<Rightarrow> True | Inr r \<Rightarrow> enveloped r"
  proof (cases v)
    case (Inl e)
    then show ?thesis by (simp add: bind_io_def mt)
  next
    case (Inr x)
    then show ?thesis
      using assms[of x] by (simp add: bind_io_def mt enveloped_io_def)
  qed
qed

lemma enveloped_if:
  "(c \<Longrightarrow> enveloped_io a) \<Longrightarrow> (\<not> c \<Longrightarrow> enveloped_io b) \<Longrightarrow> enveloped_io (if c then a else b)"
  by simp

lemma enveloped_return_if:
  "enveloped_io (return_io (if c then json d s else json d' s'))"
  by (simp add: enveloped_return)

lemmas enveloped_intros = enveloped_bind enveloped_return enveloped_throw enveloped_if
  enveloped_return_if

lemma enveloped_github: "enveloped_io (handleGitHub w env req path)"
  unfolding handleGitHub_def github_orgs_def github_repos_def github_repo_def github_file_def Let_def
  by (intro enveloped_intros)

lemma enveloped_stripe: "enveloped_io (handleStripe w env req path)"
  unfolding handleStripe_def stripe_products_def stripe_product_def stripe_customers_def Let_def
  by (intro enveloped_intros)

lemma enveloped_hf: "enveloped_io (handleHuggingFace w env req path)"
  unfolding handleHuggingFace_def hf_models_def hf_spaces_def
  by (intro enveloped_intros)

lemma enveloped_cf: "enveloped_io (handleCloudflare w env req path)"
  unfolding handleCloudflare_def cf_workers_def cf_kv_def cf_d1_def
  by (intro enveloped_intros)

lemma enveloped_agents: "enveloped_io (handleAgents w env req path)"
  unfolding handleAgents_def agents_list_def agents_create_def agents_get_def Let_def
  by (intro enveloped_intros)

lemma enveloped_notify: "enveloped_io (handleNotify w env req path)"
  unfolding handleNotify_def Let_def
  by (intro enveloped_intros)

lemma enveloped_stats: "enveloped_io (handleStats w env)"
  unfolding handleStats_def
  by (intro enveloped_intros)

lemma enveloped_dispatch: "enveloped_io (dispatch w env req)"
  unfolding dispatch_def Let_def
  by (intro enveloped_intros enveloped_github enveloped_stripe enveloped_hf enveloped_cf
      enveloped_agents enveloped_notify enveloped_stats)

subsection \<open>The file upsert and the product saga\<close>

lemma demo_btoa_hello: "demo_btoa ''hello'' = Inr ''aGVsbG8=''"
  by (simp add: demo_btoa_def prepend_unit_def b64_digit_def)

lemma demo_btoa_arrow: "demo_btoa [CHR 0xE2, CHR 0x86, CHR 0x92] = Inl InvalidCharacterError"
  by (simp add: demo_btoa_def)

lemma unit_amount_29_99: "unit_amount w (JNum (to_double (2999 / 100))) = Finite 2999"
  by (simp only: unit_amount_def ToNumber.simps round_29_99)

lemma pro_plan_fields:
  "get_prop pro_plan ''name'' = JStr ''Pro Plan''"
  "get_prop pro_plan ''description'' = JUndefined"
  "get_prop pro_plan ''price'' = JNum (to_double (2999 / 100))"
  "get_prop pro_plan ''currency'' = JUndefined"
  "get_prop pro_plan ''recurring'' = JStr ''month''"
  "\<not> nullish pro_plan"
  by (simp_all add: pro_plan_def get_prop_def nullish_def)

lemma take_two: "take 2 xs = [a, b] \<Longrightarrow> \<exists>rest. xs = a # b # rest"
  by (metis append_Cons append_Nil append_take_drop_id)

section \<open>The claims\<close>




text \<open>
  C2. For \<^verbatim>\<open>POST /stripe/product\<close> with the body
  \<^verbatim>\<open>{"name":"Pro Plan","price":29.99,"recurring":"month"}\<close>, when the payments API answers
  the product creation with a product identifier, the price creation with a price
  identifier and the payment-link creation with a URL, the handler issues exactly three
  calls in this order: the product creation; the price creation, whose form body carries
  the returned product identifier, \<^verbatim>\<open>unit_amount\<close> 2999, the currency and
  \<^verbatim>\<open>recurring[interval]\<close> \<^verbatim>\<open>month\<close>; and the payment-link creation, whose form body
  carries the returned price identifier. The response has status 200 and contains
  \<^verbatim>\<open>product.id\<close>, \<^verbatim>\<open>price.amount\<close> equal to the Number 29.99, and the URL as
  \<^verbatim>\<open>payment_link\<close>.
\<close>

theorem pro_plan_saga:
  assumes "http_method req = ''POST''" and "pathname req = ''/stripe/product''"
    and "json_body req = Inr pro_plan"
    and "c1 = stripe_post env ''/products''
                [(''name'', JStr ''Pro Plan''), (''description'', JStr [])]"
    and "c2 = stripe_post env ''/prices''
                [(''product'', JStr pid), (''unit_amount'', JNum (Finite 2999)),
                 (''currency'', JStr ''usd''), (''recurring[interval]'', JStr ''month'')]"
    and "c3 = stripe_post env ''/payment_links''
                [(''line_items[0][price]'', JStr prid),
                 (''line_items[0][quantity]'', JNum (Finite 1))]"
    and "upstream w [] c1 = Inr product"
    and "get_prop product ''id'' = JStr pid"
    and "upstream w [Upstream c1] c2 = Inr priceObj"
    and "get_prop priceObj ''id'' = JStr prid"
    and "upstream w [Upstream c1, Upstream c2] c3 = Inr link"
    and "get_prop link ''url'' = JStr u"
  shows "\<exists>r d. fetch w env req = ([Upstream c1, Upstream c2, Upstream c3], Inr r)
           \<and> status r = 200 \<and> body r = Json_text d 2
           \<and> get_prop (get_prop d ''product'') ''id'' = JStr pid
           \<and> get_prop (get_prop d ''price'') ''amount'' = JNum (to_double (2999 / 100))
           \<and> get_prop d ''payment_link'' = JStr u"
proof -
  have "startsWith (pathname req) ''/stripe''"
    using assms(2) by (simp add: startsWith_def)
  then have run: "fetch w env req = stripe_product w env req []"
    using assms(1,2) by (simp add: fetch_def dispatch_group handleStripe_def)
  have nn: "\<not> nullish product" "\<not> nullish priceObj" "\<not> nullish link"
    using assms(8,10,12) get_prop_nullish by auto
  have out: "stripe_product w env req [] =
      ([Upstream c1, Upstream c2, Upstream c3],
       Inr (json (JObj [(''product'', JObj [(''id'', JStr pid), (''name'', get_prop product ''name'')]),
                        (''price'', JObj [(''id'', JStr prid), (''amount'', JNum (to_double (2999 / 100))),
                                           (''currency'', JStr ''usd'')]),
                        (''payment_link'', JStr u)]) 200))"
    using assms(7-12) nn
    unfolding assms(4,5,6)
    by (simp add: stripe_product_def request_json_ok[OF assms(3) pro_plan_fields(6)] Let_def
        stripe_def stripe_request_def URLSearchParams_def stripe_post_def io_simps member_def
        pro_plan_fields dflt_def unit_amount_29_99)
  show ?thesis
    unfolding run out
    by (cases "JSON_stringify (get_prop product ''name'')")
       (simp_all add: json_def double_29_99 get_prop_def)
qed

theorem pro_plan_saga_witness:
  "fetch demo_world demo_env (json_request ''POST'' ''/stripe/product'' pro_plan) =
     ([Upstream \<lparr>url = ''https://api.stripe.com/v1/products'', verb = ''POST'',
                 call_headers = [(''Authorization'', ''Bearer sk_test_demo''),
                                 (''Content-Type'', ''application/x-www-form-urlencoded'')],
                 payload = Form_payload [(''name'', JStr ''Pro Plan''), (''description'', JStr [])]\<rparr>,
       Upstream \<lparr>url = ''https://api.stripe.com/v1/prices'', verb = ''POST'',
                 call_headers = [(''Authorization'', ''Bearer sk_test_demo''),
                                 (''Content-Type'', ''application/x-www-form-urlencoded'')],
                 payload = Form_payload
                   [(''product'', JStr ''prod_1''), (''unit_amount'', JNum (Finite 2999)),
                    (''currency'', JStr ''usd''), (''recurring[interval]'', JStr ''month'')]\<rparr>,
       Upstream \<lparr>url = ''https://api.stripe.com/v1/payment_links'', verb = ''POST'',
                 call_headers = [(''Authorization'', ''Bearer sk_test_demo''),
                                 (''Content-Type'', ''application/x-www-form-urlencoded'')],
                 payload = Form_payload
                   [(''line_items[0][price]'', JStr ''price_1''),
                    (''line_items[0][quantity]'', JNum (Finite 1))]\<rparr>],
      Inr \<lparr>status = 200,
           headers = corsHeaders @ [(''Content-Type'', ''application/json'')],
           body = Json_text
             (JObj [(''product'', JObj [(''id'', JStr ''prod_1''), (''name'', JStr ''Pro Plan'')]),
                    (''price'', JObj [(''id'', JStr ''price_1''),
                                       (''amount'', JNum (to_double (2999 / 100))),
                                       (''currency'', JStr ''usd'')]),
                    (''payment_link'', JStr ''https://buy.stripe.com/test_1'')]) 2\<rparr>)"
proof -
  let ?req = "json_request ''POST'' ''/stripe/product'' pro_plan"
  let ?product = "JObj [(''id'', JStr ''prod_1''), (''name'', JStr ''Pro Plan'')]"
  let ?priceObj = "JObj [(''id'', JStr ''price_1'')]"
  let ?link = "JObj [(''url'', JStr ''https://buy.stripe.com/test_1'')]"
  let ?c1 = "stripe_post demo_env ''/products''
                [(''name'', JStr ''Pro Plan''), (''description'', JStr [])]"
  let ?c2 = "stripe_post demo_env ''/prices''
                [(''product'', JStr ''prod_1''), (''unit_amount'', JNum (Finite 2999)),
                 (''currency'', JStr ''usd''), (''recurring[interval]'', JStr ''month'')]"
  let ?c3 = "stripe_post demo_env ''/payment_links''
                [(''line_items[0][price]'', JStr ''price_1''),
                 (''line_items[0][quantity]'', JNum (Finite 1))]"
  have answers:
    "upstream demo_world [] ?c1 = Inr ?product"
    "upstream demo_world [Upstream ?c1] ?c2 = Inr ?priceObj"
    "upstream demo_world [Upstream ?c1, Upstream ?c2] ?c3 = Inr ?link"
    by (simp_all add: demo_world_def demo_upstream_def stripe_post_def)
  have ids: "get_prop ?product ''id'' = JStr ''prod_1''" "get_prop ?product ''name'' = JStr ''Pro Plan''"
    "get_prop ?priceObj ''id'' = JStr ''price_1''"
    "get_prop ?link ''url'' = JStr ''https://buy.stripe.com/test_1''"
    by (simp_all add: get_prop_def)
  have nn: "\<not> nullish ?product" "\<not> nullish ?priceObj" "\<not> nullish ?link"
    by (simp_all add: nullish_def)
  have req: "http_method ?req = ''POST''" "pathname ?req = ''/stripe/product''"
    "json_body ?req = Inr pro_plan"
    by (simp_all add: json_request_def)
  have "\<exists>r d. fetch demo_world demo_env ?req = ([Upstream ?c1, Upstream ?c2, Upstream ?c3], Inr r)
           \<and> status r = 200 \<and> body r = Json_text d 2
           \<and> get_prop (get_prop d ''product'') ''id'' = JStr ''prod_1''
           \<and> get_prop (get_prop d ''price'') ''amount'' = JNum (to_double (2999 / 100))
           \<and> get_prop d ''payment_link'' = JStr ''https://buy.stripe.com/test_1''"
    by (rule pro_plan_saga[OF req refl refl refl answers(1) ids(1) answers(2) ids(3)
          answers(3) ids(4)])
  then obtain r where r: "fetch demo_world demo_env ?req =
      ([Upstream ?c1, Upstream ?c2, Upstream ?c3], Inr r)"
    by blast
  have rj: "request_json ?req = return_io pro_plan"
    by (rule request_json_ok[OF req(3) pro_plan_fields(6)])
  have "startsWith (pathname ?req) ''/stripe''"
    by (simp add: startsWith_def req)
  then have "snd (fetch demo_world demo_env ?req) =
      Inr (json (JObj [(''product'', JObj [(''id'', JStr ''prod_1''), (''name'', JStr ''Pro Plan'')]),
                        (''price'', JObj [(''id'', JStr ''price_1''), (''amount'', JNum (to_double (2999 / 100))),
                                           (''currency'', JStr ''usd'')]),
                        (''payment_link'', JStr ''https://buy.stripe.com/test_1'')]) 200)"
    using answers ids nn
    by (simp add: fetch_def dispatch_group handleStripe_def stripe_product_def rj
        pro_plan_fields Let_def stripe_def stripe_request_def URLSearchParams_def stripe_post_def
        io_simps member_def dflt_def unit_amount_29_99 req)
  then show ?thesis
    using r by (simp add: json_def double_29_99 stripe_post_def demo_env_def)
qed






text \<open>
  C5 (amended). Every response the gateway resolves with carries the three CORS headers.
  The preflight response carries nothing else and has no body. Every other response
  carries, after them, \<^verbatim>\<open>Content-Type: application/json\<close>, and its body, when it has one,
  is JSON text indented by two.
\<close>

theorem response_envelope:
  assumes "fetch w env req = (tr, Inr r)"
  shows "take 3 (headers r) = corsHeaders
       \<and> (http_method req = ''OPTIONS'' \<longrightarrow> headers r = corsHeaders \<and> body r = No_body)
       \<and> (http_method req \<noteq> ''OPTIONS'' \<longrightarrow>
            headers r = corsHeaders @ [(''Content-Type'', ''application/json'')]
            \<and> (body r = No_body \<or> (\<exists>d. body r = Json_text d 2)))"
proof (cases "http_method req = ''OPTIONS''")
  case True
  then have "r = preflight"
    using assms by (simp add: fetch_def)
  then show ?thesis
    using True by (simp add: preflight_def corsHeaders_def)
next
  case False
  then have "snd (dispatch w env req []) = Inr r"
    using assms by (simp add: fetch_def)
  then have "enveloped r"
    using enveloped_dispatch[of w env req] by (auto simp: enveloped_io_def split: sum.splits)
  then show ?thesis
    using False by (cases "body r") (auto simp: enveloped_def corsHeaders_def)
qed

theorem response_envelope_witness:
  "fetch demo_world demo_env (bare_request ''GET'' ''/health'')
     = ([], Inr \<lparr>status = 200,
                headers = corsHeaders @ [(''Content-Type'', ''application/json'')],
                body = Json_text (JObj [(''status'', JStr ''ok''),
                                        (''service'', JStr ''blackroad-command-center''),
                                        (''version'', JStr ''1.0.0'')]) 2\<rparr>)
   \<and> take 3 (corsHeaders @ [(''Content-Type'', ''application/json'')]) = corsHeaders"
proof -
  let ?r = "\<lparr>status = 200,
             headers = corsHeaders @ [(''Content-Type'', ''application/json'')],
             body = Json_text (JObj [(''status'', JStr ''ok''),
                                     (''service'', JStr ''blackroad-command-center''),
                                     (''version'', JStr ''1.0.0'')]) 2\<rparr>"
  have run: "fetch demo_world demo_env (bare_request ''GET'' ''/health'') = ([], Inr ?r)"
    by (simp add: fetch_def dispatch_def bare_request_def return_io_apply json_def)
  show ?thesis
    using response_envelope[OF run] run by simp
qed

text \<open>
  The claim as stated fails on the preflight: the response to an \<^verbatim>\<open>OPTIONS\<close> request has
  no body at all and no \<^verbatim>\<open>Content-Type\<close> header.
\<close>

theorem response_envelope_counterexample:
  "fetch demo_world demo_env (bare_request ''OPTIONS'' ''/github/orgs'')
     = ([], Inr \<lparr>status = 200,
                headers = [(''Access-Control-Allow-Origin'', ''*''),
                           (''Access-Control-Allow-Methods'', ''GET, POST, PUT, DELETE, OPTIONS''),
                           (''Access-Control-Allow-Headers'', ''Content-Type, Authorization, X-API-Key'')],
                body = No_body\<rparr>)"
  by (simp add: fetch_def bare_request_def preflight_def corsHeaders_def)



text \<open>
  C7. \<^verbatim>\<open>GET /agents/{id}\<close>, for an identifier of word characters and dashes for which the
  record store finds no row (its \<^verbatim>\<open>first()\<close> gives \<^verbatim>\<open>null\<close>), resolves with status 404
  and exactly the body \<^verbatim>\<open>{"error": "Agent not found"}\<close>; it does not reject. \<^verbatim>\<open>GET /agents\<close>,
  when the store holds no rows (its \<^verbatim>\<open>all()\<close> gives an empty \<^verbatim>\<open>results\<close>), resolves with
  status 200 and the empty array.
\<close>

theorem agents_not_found_and_empty:
  "(http_method req = ''GET'' \<and> pathname req = ''/agents/'' @ ident \<and> ident \<noteq> []
      \<and> list_all id_char ident
      \<and> CONTINUITY_DB env [] (select_by_id (JStr ident)) = Inr JNull
    \<longrightarrow> (\<exists>r. fetch w env req = ([Query (select_by_id (JStr ident))], Inr r) \<and> status r = 404
           \<and> body r = Json_text (JObj [(''error'', JStr ''Agent not found'')]) 2))
   \<and> (http_method req = ''GET'' \<and> pathname req = ''/agents''
      \<and> CONTINUITY_DB env [] select_all = Inr result
      \<and> get_prop result ''results'' = JArr []
    \<longrightarrow> (\<exists>r. fetch w env req = ([Query select_all], Inr r) \<and> status r = 200
           \<and> body r = Json_text (JArr []) 2))"
proof -
  have by_id: "http_method req = ''GET'' \<and> pathname req = ''/agents/'' @ ident \<and> ident \<noteq> []
      \<and> list_all id_char ident
      \<and> CONTINUITY_DB env [] (select_by_id (JStr ident)) = Inr JNull
    \<longrightarrow> (\<exists>r. fetch w env req = ([Query (select_by_id (JStr ident))], Inr r) \<and> status r = 404
           \<and> body r = Json_text (JObj [(''error'', JStr ''Agent not found'')]) 2)"
  proof
    assume a: "http_method req = ''GET'' \<and> pathname req = ''/agents/'' @ ident \<and> ident \<noteq> []
      \<and> list_all id_char ident
      \<and> CONTINUITY_DB env [] (select_by_id (JStr ident)) = Inr JNull"
    then have m: "matches_id ''/agents/'' (''/agents/'' @ ident)"
      by (simp add: matches_id_def startsWith_def)
    from a have ne: "''/agents/'' @ ident \<noteq> ''/agents''"
      by simp
    from a have "startsWith (pathname req) ''/agents''"
      by (simp add: startsWith_def)
    then have run: "fetch w env req = agents_get env (''/agents/'' @ ident) []"
      using a m ne by (simp add: fetch_def dispatch_group handleAgents_def del: append.simps)
    show "\<exists>r. fetch w env req = ([Query (select_by_id (JStr ident))], Inr r) \<and> status r = 404
           \<and> body r = Json_text (JObj [(''error'', JStr ''Agent not found'')]) 2"
      unfolding run using a
      by (simp add: agents_get_def segment_agents io_simps json_def Let_def del: append.simps)
  qed
  have listing: "http_method req = ''GET'' \<and> pathname req = ''/agents''
      \<and> CONTINUITY_DB env [] select_all = Inr result
      \<and> get_prop result ''results'' = JArr []
    \<longrightarrow> (\<exists>r. fetch w env req = ([Query select_all], Inr r) \<and> status r = 200
           \<and> body r = Json_text (JArr []) 2)"
  proof
    assume b: "http_method req = ''GET'' \<and> pathname req = ''/agents''
      \<and> CONTINUITY_DB env [] select_all = Inr result
      \<and> get_prop result ''results'' = JArr []"
    then have "\<not> nullish result"
      using get_prop_nullish[of result "''results''"] by auto
    moreover from b have "startsWith (pathname req) ''/agents''"
      by (simp add: startsWith_def)
    ultimately show "\<exists>r. fetch w env req = ([Query select_all], Inr r) \<and> status r = 200
           \<and> body r = Json_text (JArr []) 2"
      using b
      by (simp add: fetch_def dispatch_group handleAgents_def agents_list_def member_def js_or_def
          io_simps json_def)
  qed
  show ?thesis
    by (intro conjI by_id listing)
qed

theorem agents_not_found_and_empty_witness:
  "(\<exists>r. fetch demo_world demo_env (bare_request ''GET'' ''/agents/atlas-7'')
          = ([Query (select_by_id (JStr ''atlas-7''))], Inr r)
        \<and> status r = 404 \<and> body r = Json_text (JObj [(''error'', JStr ''Agent not found'')]) 2)
   \<and> (\<exists>r. fetch demo_world demo_env (bare_request ''GET'' ''/agents'')
          = ([Query select_all], Inr r)
        \<and> status r = 200 \<and> body r = Json_text (JArr []) 2)"
proof -
  have id: "list_all id_char ''atlas-7''"
    by (simp add: id_char_def)
  have db: "CONTINUITY_DB demo_env [] (select_by_id (JStr ''atlas-7'')) = Inr JNull"
    "CONTINUITY_DB demo_env [] select_all = Inr (JObj [(''results'', JArr []), (''success'', JBool True)])"
    by (simp_all add: demo_env_def d1_table_def select_by_id_def select_all_def)
  have res: "get_prop (JObj [(''results'', JArr []), (''success'', JBool True)]) ''results'' = JArr []"
    by (simp add: get_prop_def)
  have req: "http_method (bare_request ''GET'' ''/agents/atlas-7'') = ''GET''"
    "pathname (bare_request ''GET'' ''/agents/atlas-7'') = ''/agents/'' @ ''atlas-7''"
    "http_method (bare_request ''GET'' ''/agents'') = ''GET''"
    "pathname (bare_request ''GET'' ''/agents'') = ''/agents''"
    by (simp_all add: bare_request_def)
  show ?thesis
    using agents_not_found_and_empty[of "bare_request ''GET'' ''/agents/atlas-7''" "''atlas-7''"
        demo_env demo_world]
      agents_not_found_and_empty[of "bare_request ''GET'' ''/agents''" _ demo_env demo_world
        "JObj [(''results'', JArr []), (''success'', JBool True)]"]
      id db res req
    by simp
qed

text \<open>
  C8. For each of \<^verbatim>\<open>GET /cf/workers\<close>, \<^verbatim>\<open>GET /cf/kv\<close> and \<^verbatim>\<open>GET /cf/d1\<close>: when the
  infrastructure API answers with a value whose \<^verbatim>\<open>result\<close> is missing or \<^verbatim>\<open>null\<close>, the
  handler resolves with status 200 and the empty array.
\<close>

theorem cf_missing_result_is_empty:
  assumes "http_method req = ''GET''"
    and "(pathname req, endpoint) \<in> set [(''/cf/workers'', ''/workers/scripts''),
           (''/cf/kv'', ''/storage/kv/namespaces''), (''/cf/d1'', ''/d1/database'')]"
    and "upstream w [] (cf_request env endpoint) = Inr result"
    and "\<not> nullish result" and "nullish (get_prop result ''result'')"
  shows "\<exists>r. fetch w env req = ([Upstream (cf_request env endpoint)], Inr r)
           \<and> status r = 200 \<and> body r = Json_text (JArr []) 2"
proof -
  have "startsWith (pathname req) ''/cf''"
    using assms(2) by (auto simp: startsWith_def)
  then show ?thesis
    using assms
    by (auto simp add: fetch_def dispatch_group handleCloudflare_def cf_workers_def cf_kv_def
        cf_d1_def cf_def member_def optional_map_or_empty_def js_or_def io_simps json_def)
qed

theorem cf_missing_result_is_empty_witness:
  "(\<exists>r. fetch demo_world demo_env (bare_request ''GET'' ''/cf/workers'')
          = ([Upstream (cf_request demo_env ''/workers/scripts'')], Inr r)
        \<and> status r = 200 \<and> body r = Json_text (JArr []) 2)
   \<and> (\<exists>r. fetch demo_world demo_env (bare_request ''GET'' ''/cf/kv'')
          = ([Upstream (cf_request demo_env ''/storage/kv/namespaces'')], Inr r)
        \<and> status r = 200 \<and> body r = Json_text (JArr []) 2)
   \<and> (\<exists>r. fetch demo_world demo_env (bare_request ''GET'' ''/cf/d1'')
          = ([Upstream (cf_request demo_env ''/d1/database'')], Inr r)
        \<and> status r = 200 \<and> body r = Json_text (JArr []) 2)"
proof -
  have answers:
    "upstream demo_world [] (cf_request demo_env ''/workers/scripts'')
       = Inr (JObj [(''success'', JBool False), (''errors'', JArr [])])"
    "upstream demo_world [] (cf_request demo_env ''/storage/kv/namespaces'')
       = Inr (JObj [(''success'', JBool False), (''result'', JNull)])"
    "upstream demo_world [] (cf_request demo_env ''/d1/database'') = Inr (JObj [])"
    by (simp_all add: demo_world_def demo_upstream_def cf_request_def demo_env_def)
  have workers: "\<exists>r. fetch demo_world demo_env (bare_request ''GET'' ''/cf/workers'')
          = ([Upstream (cf_request demo_env ''/workers/scripts'')], Inr r)
        \<and> status r = 200 \<and> body r = Json_text (JArr []) 2"
    by (rule cf_missing_result_is_empty[OF _ _ answers(1)])
       (simp_all add: bare_request_def nullish_def get_prop_def)
  have kv: "\<exists>r. fetch demo_world demo_env (bare_request ''GET'' ''/cf/kv'')
          = ([Upstream (cf_request demo_env ''/storage/kv/namespaces'')], Inr r)
        \<and> status r = 200 \<and> body r = Json_text (JArr []) 2"
    by (rule cf_missing_result_is_empty[OF _ _ answers(2)])
       (simp_all add: bare_request_def nullish_def get_prop_def)
  have d1: "\<exists>r. fetch demo_world demo_env (bare_request ''GET'' ''/cf/d1'')
          = ([Upstream (cf_request demo_env ''/d1/database'')], Inr r)
        \<and> status r = 200 \<and> body r = Json_text (JArr []) 2"
    by (rule cf_missing_result_is_empty[OF _ _ answers(3)])
       (simp_all add: bare_request_def nullish_def get_prop_def)
  show ?thesis
    by (intro conjI workers kv d1)
qed






end
